theory Spec2Isabelle
  imports Complex_Main
begin

section \<open>The deception detector of the verification subsystem\<close>

text \<open>
  A shallow embedding of the class \<open>DeceptionDetector\<close> of
  \<^verbatim>\<open>src/dist-cjs/src/verification/index.js\<close> (lines 1608 to 2379).

  Numbers. A JavaScript \<open>number\<close> is modelled as a \<open>real\<close>: sums, quotients, comparisons,
  \<open>Math.min\<close>, \<open>Math.max\<close>, \<open>Math.sqrt\<close> are the exact ones, rounding of IEEE doubles and
  \<open>NaN\<close> are outside the model. A \<open>timestamp\<close> is an \<open>int\<close> (epoch milliseconds), a count
  (\<open>length\<close>, a counter incremented by one) is a \<open>nat\<close>.

  Field names. Several result types of the source share field names (\<open>confidence\<close>,
  \<open>evidence\<close>, \<open>agentId\<close>, ...). The fields of \<open>AgentReport\<close> keep the plain name, the
  fields of the other types carry a suffix where the name is already taken.
\<close>

subsection \<open>Data model\<close>

text \<open>
  The values an \<open>any\<close>-typed evidence field can hold, as far as the detector looks at them:
  a number, a boolean, \<open>null\<close>, or a plain object (strings and \<open>NaN\<close> are left out). The
  detector only asks whether a field is truthy and whether it is below a numeric bound.
\<close>

datatype jsval = JNum real | JBool bool | JNull | JObj

fun truthy :: "jsval \<Rightarrow> bool" where
  "truthy (JNum x) = (x \<noteq> 0)"
| "truthy (JBool b) = b"
| "truthy JNull = False"
| "truthy JObj = True"

text \<open>\<open>v < c\<close> of JavaScript for a numeric bound \<open>c\<close>: the value is converted to a number
  first (\<open>true\<close> is 1, \<open>false\<close> and \<open>null\<close> are 0, a plain object is \<open>NaN\<close>, and every
  comparison with \<open>NaN\<close> is false).\<close>

fun lessThanNum :: "jsval \<Rightarrow> real \<Rightarrow> bool" where
  "lessThanNum (JNum x) c = (x < c)"
| "lessThanNum (JBool b) c = ((if b then 1 else 0) < c)"
| "lessThanNum JNull c = (0 < c)"
| "lessThanNum JObj c = False"

record Performance =
  improvement :: real
  metrics :: "(string \<times> real) list option"

record Quality =
  codeQuality :: real
  documentation :: real
  maintainability :: real

record TaskOutcome =
  success :: bool
  testsPass :: bool
  noErrors :: bool
  performance :: Performance
  quality :: Quality

text \<open>
  \<open>evidence\<close> is \<open>None\<close> for a falsy value (absent, \<open>undefined\<close>, \<open>null\<close>) and otherwise the
  list of the object's own enumerable properties; a key is looked up with \<open>map_of\<close> and
  \<open>Object.keys\<close> counts the distinct keys.
\<close>

record AgentReport =
  id_r :: string
  agentId :: string
  taskId :: string
  claimedOutcome :: TaskOutcome
  evidence :: "(string \<times> jsval) list option"
  timestamp :: int
  truthScore :: "real option"
  verified :: bool
  conflicts :: "string list"

record DeceptionAnalysis =
  reportId :: "string option"
  agentId_a :: string
  truthScore_a :: real
  deceptionDetected :: bool
  deceptionType :: "string list"
  confidence :: real
  evidence_a :: "string \<rightharpoonup> jsval"
  recommendations :: "string list"

record DeceptionDetector =
  tempDir :: string
  analysisHistory :: "string \<rightharpoonup> DeceptionAnalysis list"

text \<open>\<open>Object.keys(o).length\<close>.\<close>

definition keysLength :: "(string \<times> 'v) list \<Rightarrow> nat" where
  "keysLength kvs = length (remdups (map fst kvs))"

text \<open>\<open>report.evidence?.k\<close>: \<open>None\<close> stands for \<open>undefined\<close>.\<close>

definition evidenceField :: "AgentReport \<Rightarrow> string \<Rightarrow> jsval option" where
  "evidenceField report k = (case evidence report of None \<Rightarrow> None | Some kvs \<Rightarrow> map_of kvs k)"

text \<open>A condition \<open>v && v < c\<close> on an optional field: \<open>undefined\<close> is falsy.\<close>

definition truthyAndBelow :: "jsval option \<Rightarrow> real \<Rightarrow> bool" where
  "truthyAndBelow v c = (case v of None \<Rightarrow> False | Some x \<Rightarrow> truthy x \<and> lessThanNum x c)"

subsection \<open>detectFabrication (lines 1770 to 1813)\<close>

record FabricationResult =
  isFabricated :: bool
  confidence_f :: real
  indicators :: "string list"

text \<open>
  The function keeps two locals, the list \<open>indicators\<close> and the number \<open>fabricationScore\<close>,
  and runs four checks in a row. Each check is a function on the pair of the two locals.
\<close>

type_synonym fabState = "string list \<times> real"

definition checkPerfectResults :: "AgentReport \<Rightarrow> fabState \<Rightarrow> fabState" where
  "checkPerfectResults report st =
     (if testsPass (claimedOutcome report) \<and>
         noErrors (claimedOutcome report) \<and>
         success (claimedOutcome report) \<and>
         codeQuality (quality (claimedOutcome report)) > 0.95
      then (fst st @ [''suspiciously-perfect-results''], snd st + 0.3)
      else st)"

definition insufficientEvidence :: "AgentReport \<Rightarrow> bool" where
  "insufficientEvidence report =
     (case evidence report of None \<Rightarrow> True | Some kvs \<Rightarrow> keysLength kvs < 3)"

definition checkEvidenceDetail :: "AgentReport \<Rightarrow> fabState \<Rightarrow> fabState" where
  "checkEvidenceDetail report st =
     (if insufficientEvidence report
      then (fst st @ [''insufficient-evidence''], snd st + 0.2)
      else st)"

definition checkTiming :: "AgentReport \<Rightarrow> fabState \<Rightarrow> fabState" where
  "checkTiming report st =
     (if timestamp report \<noteq> 0 \<and>
         (case evidenceField report ''duration'' of None \<Rightarrow> False | Some d \<Rightarrow> truthy d)
      then (if (case evidenceField report ''duration'' of None \<Rightarrow> False
                | Some d \<Rightarrow> lessThanNum d 1000)
            then (fst st @ [''unrealistically-fast-completion''], snd st + 0.25)
            else st)
      else st)"

definition checkOverperformance :: "AgentReport \<Rightarrow> fabState \<Rightarrow> fabState" where
  "checkOverperformance report st =
     (if improvement (performance (claimedOutcome report)) > 0.5
      then (fst st @ [''unrealistic-performance-improvement''], snd st + 0.25)
      else st)"

definition fabricationChecks :: "AgentReport \<Rightarrow> fabState" where
  "fabricationChecks report =
     checkOverperformance report
       (checkTiming report
         (checkEvidenceDetail report
           (checkPerfectResults report ([], 0))))"

definition detectFabrication :: "AgentReport \<Rightarrow> FabricationResult" where
  "detectFabrication report =
     (let st = fabricationChecks report
      in \<lparr> isFabricated = snd st > 0.5,
           confidence_f = min (snd st) 1.0,
           indicators = fst st \<rparr>)"

subsection \<open>detectGaslighting (lines 1862 to 1904)\<close>

record GaslightingResult =
  isGaslighting :: bool
  confidence_g :: real
  contradictions :: "string list"
  contradictionsWithOtherAgents :: nat
  systematicDisagreement :: bool

text \<open>
  The body of the loop over \<open>sameTaskReports\<close>, on the pair of the locals
  \<open>contradictions\<close> and \<open>contradictionCount\<close>. The three comparisons run one after the
  other on every other report.
\<close>

definition compareWithOther ::
  "AgentReport \<Rightarrow> string list \<times> nat \<Rightarrow> AgentReport \<Rightarrow> string list \<times> nat" where
  "compareWithOther report st otherReport =
     (let st = (if success (claimedOutcome report) \<noteq> success (claimedOutcome otherReport)
                then (fst st @ [''Contradicts '' @ agentId otherReport @ '' on task success''],
                      snd st + 1)
                else st);
          st = (if \<bar>improvement (performance (claimedOutcome report)) -
                     improvement (performance (claimedOutcome otherReport))\<bar> > 0.3
                then (fst st @ [''Large discrepancy in performance claims vs '' @
                                agentId otherReport],
                      snd st + 1)
                else st);
          st = (if codeQuality (quality (claimedOutcome report)) > 0.8 \<and>
                   codeQuality (quality (claimedOutcome otherReport)) < 0.6
                then (fst st @ [''Systematically disagrees with '' @ agentId otherReport @
                                [CHR 0x27] @ ''s quality assessment''],
                      snd st + 1)
                else st)
      in st)"

definition detectGaslighting :: "AgentReport \<Rightarrow> AgentReport list \<Rightarrow> GaslightingResult" where
  "detectGaslighting report otherReports =
     (let sameTaskReports =
            filter (\<lambda>r. taskId r = taskId report \<and> agentId r \<noteq> agentId report) otherReports;
          st = foldl (compareWithOther report) ([], 0) sameTaskReports;
          systematic = (snd st \<ge> min (length sameTaskReports) 8)
      in \<lparr> isGaslighting = (length (fst st) \<ge> 2),
           confidence_g = min (real (length (fst st)) * 0.3) 1.0,
           contradictions = fst st,
           contradictionsWithOtherAgents = snd st,
           systematicDisagreement = systematic \<rparr>)"

subsection \<open>The private analyses (lines 1906 to 2165)\<close>

text \<open>
  \<open>analyzeSuccessRates\<close>, \<open>analyzePerformanceClaims\<close>, \<open>analyzeQualityClaims\<close> and
  \<open>analyzeConsistency\<close> return an object with one numeric field; the model returns the
  number. They are private and \<open>analyzeAgentPattern\<close> calls them on a non-empty list only:
  on the empty list the source divides zero by zero, which the model does not describe.
\<close>

definition analyzeSuccessRates :: "AgentReport list \<Rightarrow> real" where
  "analyzeSuccessRates reports =
     (let claimedSuccesses = length (filter (\<lambda>r. success (claimedOutcome r)) reports);
          claimedRate = real claimedSuccesses / real (length reports);
          realisticRate = 0.7;
          discrepancy = max 0 (claimedRate - realisticRate)
      in discrepancy)"

definition analyzePerformanceClaims :: "AgentReport list \<Rightarrow> real" where
  "analyzePerformanceClaims reports =
     (let avgImprovement =
            foldl (\<lambda>sum r. sum + improvement (performance (claimedOutcome r))) 0 reports
              / real (length reports);
          realisticImprovement = 0.15;
          exaggeration = max 0 (avgImprovement - realisticImprovement)
      in exaggeration)"

definition analyzeQualityClaims :: "AgentReport list \<Rightarrow> real" where
  "analyzeQualityClaims reports =
     (let avgQuality =
            foldl (\<lambda>sum r. sum + codeQuality (quality (claimedOutcome r))) 0 reports
              / real (length reports);
          realisticQuality = 0.7;
          inflation = max 0 (avgQuality - realisticQuality)
      in inflation)"

definition analyzeConsistency :: "AgentReport list \<Rightarrow> real" where
  "analyzeConsistency reports =
     (if length reports < 2 then 1.0
      else
        let improvements = map (\<lambda>r. improvement (performance (claimedOutcome r))) reports;
            avgImprovement = foldl (\<lambda>a b. a + b) 0 improvements / real (length improvements);
            variance = foldl (\<lambda>sum val. sum + (val - avgImprovement) ^ 2) 0 improvements
                         / real (length improvements);
            stdDev = sqrt variance;
            consistency = max 0 (1 - stdDev * 2)
        in consistency)"

record IssueHidingResult =
  isHiding :: bool
  hiddenCount :: int

text \<open>\<open>Math.round x\<close> is \<open>\<lfloor>x + 1/2\<rfloor>\<close>.\<close>

definition mathRound :: "real \<Rightarrow> int" where
  "mathRound x = \<lfloor>x + 1 / 2\<rfloor>"

definition detectIssueHiding :: "AgentReport list \<Rightarrow> IssueHidingResult" where
  "detectIssueHiding reports =
     (if length reports < 10 then \<lparr> isHiding = False, hiddenCount = 0 \<rparr>
      else
        let noErrorReports = length (filter (\<lambda>r. noErrors (claimedOutcome r) = True) reports);
            noErrorRate = real noErrorReports / real (length reports)
        in if noErrorRate > 0.9
           then (let realisticRate = 0.65;
                     hidden = mathRound ((noErrorRate - realisticRate) * real (length reports))
                 in \<lparr> isHiding = True, hiddenCount = hidden \<rparr>)
           else \<lparr> isHiding = False, hiddenCount = 0 \<rparr>)"

text \<open>The loop body of \<open>detectCherryPicking\<close>, on the pair
  \<open>(favorableOnlyCount, incompleteMetricsCount)\<close>.\<close>

definition cherryPickingStep :: "nat \<times> nat \<Rightarrow> AgentReport \<Rightarrow> nat \<times> nat" where
  "cherryPickingStep st report =
     (let allMetricsGood =
            (codeQuality (quality (claimedOutcome report)) > 0.7 \<and>
             documentation (quality (claimedOutcome report)) > 0.7 \<and>
             maintainability (quality (claimedOutcome report)) > 0.7 \<and>
             testsPass (claimedOutcome report) = True);
          favorableOnlyCount = (if allMetricsGood then fst st + 1 else fst st);
          incompleteMetricsCount =
            (case metrics (performance (claimedOutcome report)) of
               None \<Rightarrow> snd st
             | Some m \<Rightarrow>
                 (let metricsCount = keysLength m
                  in if metricsCount > 0 \<and> metricsCount < 4 then snd st + 1 else snd st))
      in (favorableOnlyCount, incompleteMetricsCount))"

definition detectCherryPicking :: "AgentReport list \<Rightarrow> bool" where
  "detectCherryPicking reports =
     (if length reports < 5 then False
      else
        let st = foldl cherryPickingStep (0, 0) reports;
            favorableRate = real (fst st) / real (length reports);
            incompleteRate = real (snd st) / real (length reports)
        in favorableRate > 0.7 \<and> incompleteRate > 0.5)"

text \<open>
  Grouping by \<open>taskId\<close> in a JavaScript \<open>Map\<close>: the keys keep the order of their first
  occurrence and every group keeps the order of the input.
\<close>

fun pushToGroup ::
  "(string \<times> AgentReport list) list \<Rightarrow> AgentReport \<Rightarrow> (string \<times> AgentReport list) list" where
  "pushToGroup [] report = [(taskId report, [report])]"
| "pushToGroup ((k, g) # groups) report =
     (if k = taskId report then (k, g @ [report]) # groups
      else (k, g) # pushToGroup groups report)"

definition taskGroups :: "AgentReport list \<Rightarrow> (string \<times> AgentReport list) list" where
  "taskGroups reports = foldl pushToGroup [] reports"

text \<open>The inner loop of \<open>detectContradictions\<close> over one sorted group: the number of
  increments of \<open>contradictionCount\<close> it makes.\<close>

fun countFlips :: "AgentReport list \<Rightarrow> nat" where
  "countFlips (rprev # rcurr # later) =
     (if success (claimedOutcome rprev) \<noteq> success (claimedOutcome rcurr) then 1 else 0) +
     (if \<bar>improvement (performance (claimedOutcome rprev)) -
          improvement (performance (claimedOutcome rcurr))\<bar> > 0.3 then 1 else 0) +
     countFlips (rcurr # later)"
| "countFlips _ = 0"

record ContradictionResult =
  hasContradictions :: bool
  count_c :: nat

text \<open>\<open>Array.prototype.sort\<close> is stable; so is \<open>sort_key\<close>.\<close>

definition detectContradictions :: "AgentReport list \<Rightarrow> ContradictionResult" where
  "detectContradictions reports =
     (if length reports < 3 then \<lparr> hasContradictions = False, count_c = 0 \<rparr>
      else
        let contradictionCount =
              foldl (\<lambda>n grp.
                       if length (snd grp) > 1
                       then n + countFlips (sort_key timestamp (snd grp))
                       else n)
                    0 (taskGroups reports)
        in \<lparr> hasContradictions = (contradictionCount > 0), count_c = contradictionCount \<rparr>)"

record GaslightingPatterns =
  hasGaslighting :: bool
  hasDiscrediting :: bool
  contradictionCount_p :: nat

text \<open>The loop body of \<open>detectGaslightingPatterns\<close>, on the pair
  \<open>(contradictionCount, systematicNegativeAssessments)\<close>.\<close>

definition gaslightingPatternStep :: "nat \<times> nat \<Rightarrow> AgentReport \<Rightarrow> nat \<times> nat" where
  "gaslightingPatternStep st report =
     (let st = (if codeQuality (quality (claimedOutcome report)) > 0.8 \<and>
                   truthyAndBelow (evidenceField report ''otherAgentQuality'') 0.6
                then (fst st + 1, snd st + 1)
                else st);
          st = (if length (conflicts report) > 0
                then (fst st + length (conflicts report), snd st)
                else st)
      in st)"

definition detectGaslightingPatterns :: "AgentReport list \<Rightarrow> GaslightingPatterns" where
  "detectGaslightingPatterns reports =
     (if length reports < 5
      then \<lparr> hasGaslighting = False, hasDiscrediting = False, contradictionCount_p = 0 \<rparr>
      else
        let st = foldl gaslightingPatternStep (0, 0) reports;
            discreditingRate = real (snd st) / real (length reports)
        in \<lparr> hasGaslighting = (fst st > 2),
             hasDiscrediting = (discreditingRate > 0.4 \<or> fst st > 7),
             contradictionCount_p = fst st \<rparr>)"

record FabricationPattern =
  isFabricated_p :: bool
  inconsistencyScore :: real

text \<open>
  The four checks \<open>detectFabricationPattern\<close> makes on one report, in the order of the
  source: each is one increment of \<open>fabricationIndicators\<close>.
\<close>

definition patternIndicators :: "AgentReport \<Rightarrow> nat" where
  "patternIndicators report =
     (if codeQuality (quality (claimedOutcome report)) > 0.95 \<and>
         testsPass (claimedOutcome report) \<and>
         noErrors (claimedOutcome report) then 1 else 0) +
     (if truthyAndBelow (evidenceField report ''duration'') 1000 then 1 else 0) +
     (if insufficientEvidence report then 1 else 0) +
     (if improvement (performance (claimedOutcome report)) > 0.5 then 1 else 0)"

text \<open>The loop body, on the pair \<open>(fabricationIndicators, totalIndicators)\<close>.\<close>

definition fabricationPatternStep :: "nat \<times> nat \<Rightarrow> AgentReport \<Rightarrow> nat \<times> nat" where
  "fabricationPatternStep st report = (fst st + patternIndicators report, snd st + 4)"

definition detectFabricationPattern :: "AgentReport list \<Rightarrow> FabricationPattern" where
  "detectFabricationPattern reports =
     (if length reports < 5 then \<lparr> isFabricated_p = False, inconsistencyScore = 0 \<rparr>
      else
        let st = foldl fabricationPatternStep (0, 0) reports;
            score = real (fst st) / real (snd st)
        in \<lparr> isFabricated_p = (score > 0.4), inconsistencyScore = score \<rparr>)"

subsection \<open>calculateOverallTruthScore and generateRecommendations (lines 2167 to 2262)\<close>

definition calculateOverallTruthScore :: "AgentReport list \<Rightarrow> DeceptionAnalysis \<Rightarrow> real" where
  "calculateOverallTruthScore reports analysis =
     (let score = 1.0;
          score = (if ''overconfidence'' \<in> set (deceptionType analysis)
                   then score - 0.25 else score);
          score = (if ''exaggeration'' \<in> set (deceptionType analysis)
                   then score - 0.2 else score);
          score = (if ''quality-inflation'' \<in> set (deceptionType analysis)
                   then score - 0.15 else score);
          score = (if ''inconsistency'' \<in> set (deceptionType analysis)
                   then score - 0.2 else score);
          score = (if ''issue_hiding'' \<in> set (deceptionType analysis)
                   then score - 0.2 else score);
          score = (if ''cherry_picking'' \<in> set (deceptionType analysis)
                   then score - 0.15 else score);
          score = (if ''fabrication'' \<in> set (deceptionType analysis)
                   then score - 0.3 else score);
          score = (if ''impossible_claims'' \<in> set (deceptionType analysis)
                   then score - 0.25 else score);
          score = (if ''contradictory_statements'' \<in> set (deceptionType analysis)
                   then score - 0.2 else score)
      in max 0 (min 1 score))"

definition generateRecommendations :: "DeceptionAnalysis \<Rightarrow> string list" where
  "generateRecommendations analysis =
     (if ''overconfidence'' \<in> set (deceptionType analysis)
      then [''Implement stricter verification for this agent'',
            ''Require additional evidence for success claims'',
            ''Implement additional verification for this agent'']
      else []) @
     (if ''exaggeration'' \<in> set (deceptionType analysis)
      then [''Cross-verify performance claims with actual metrics'',
            ''Implement automated performance testing'']
      else []) @
     (if ''quality-inflation'' \<in> set (deceptionType analysis)
      then [''Add mandatory code review by independent agent'',
            ''Implement automated quality assessment'']
      else []) @
     (if ''inconsistency'' \<in> set (deceptionType analysis)
      then [''Flag for manual review due to inconsistent reporting'',
            ''Increase monitoring frequency'']
      else []) @
     (if ''issue_hiding'' \<in> set (deceptionType analysis)
      then [''Require detailed issue reporting'',
            ''Implement automated error detection'']
      else []) @
     (if ''cherry_picking'' \<in> set (deceptionType analysis)
      then [''Require comprehensive metrics reporting'',
            ''Mandate reporting of both positive and negative metrics'']
      else []) @
     (if ''fabrication'' \<in> set (deceptionType analysis)
      then [''Require third-party verification for all claims'',
            ''Implement evidence validation system'']
      else []) @
     (if ''impossible_claims'' \<in> set (deceptionType analysis)
      then [''Require third-party verification for performance claims'',
            ''Flag unrealistic improvements automatically'']
      else []) @
     (if ''contradictory_statements'' \<in> set (deceptionType analysis)
      then [''Implement immutable audit trail for agent reports'',
            ''Cross-reference with historical reports'']
      else []) @
     (if ''gaslighting'' \<in> set (deceptionType analysis) \<or>
         ''discrediting_others'' \<in> set (deceptionType analysis)
      then [''Implement multi-agent consensus verification'',
            ''Monitor for systematic disagreement patterns'']
      else []) @
     (if confidence analysis > 0.8
      then [''CRITICAL: High confidence deception detected - escalate immediately'']
      else [])"

subsection \<open>analyzeAgentPattern (lines 1627 to 1755)\<close>

text \<open>
  The function builds the object \<open>analysis\<close> and then runs its checks one after the other,
  each of which may update the object. Every check is a function from the object before to
  the object after; they are composed in the order of the source.
\<close>

definition checkSuccessRates :: "AgentReport list \<Rightarrow> DeceptionAnalysis \<Rightarrow> DeceptionAnalysis" where
  "checkSuccessRates reports analysis =
     (let discrepancy = analyzeSuccessRates reports
      in if discrepancy > 0.15
         then analysis\<lparr> deceptionDetected := True,
                        deceptionType := deceptionType analysis @ [''overconfidence''],
                        evidence_a := (evidence_a analysis)
                                        (''successRateDiscrepancy'' \<mapsto> JNum discrepancy),
                        confidence := confidence analysis + 0.3 \<rparr>
         else analysis)"

definition checkPerformanceClaims :: "AgentReport list \<Rightarrow> DeceptionAnalysis \<Rightarrow> DeceptionAnalysis" where
  "checkPerformanceClaims reports analysis =
     (let exaggeration = analyzePerformanceClaims reports
      in if exaggeration > 0.1
         then analysis\<lparr> deceptionDetected := True,
                        deceptionType := deceptionType analysis @ [''exaggeration''],
                        evidence_a := (evidence_a analysis)
                                        (''performanceExaggeration'' \<mapsto> JNum exaggeration),
                        confidence := confidence analysis + 0.25 \<rparr>
         else analysis)"

definition checkImpossibleClaims :: "AgentReport list \<Rightarrow> DeceptionAnalysis \<Rightarrow> DeceptionAnalysis" where
  "checkImpossibleClaims reports analysis =
     (let exaggeration = analyzePerformanceClaims reports
      in if exaggeration > 0.5
         then analysis\<lparr> deceptionType := deceptionType analysis @ [''impossible_claims''],
                        evidence_a := (evidence_a analysis)
                                        (''impossiblePerformanceGains'' \<mapsto> JBool True),
                        confidence := confidence analysis + 0.2 \<rparr>
         else analysis)"

definition checkQualityClaims :: "AgentReport list \<Rightarrow> DeceptionAnalysis \<Rightarrow> DeceptionAnalysis" where
  "checkQualityClaims reports analysis =
     (let inflation = analyzeQualityClaims reports
      in if inflation > 0.15
         then analysis\<lparr> deceptionDetected := True,
                        deceptionType := deceptionType analysis @ [''quality-inflation''],
                        evidence_a := (evidence_a analysis)
                                        (''qualityInflation'' \<mapsto> JNum inflation),
                        confidence := confidence analysis + 0.2 \<rparr>
         else analysis)"

definition checkConsistency :: "AgentReport list \<Rightarrow> DeceptionAnalysis \<Rightarrow> DeceptionAnalysis" where
  "checkConsistency reports analysis =
     (let consistency = analyzeConsistency reports
      in if consistency < 0.5
         then analysis\<lparr> deceptionDetected := True,
                        deceptionType := deceptionType analysis @ [''inconsistency''],
                        evidence_a := (evidence_a analysis)
                                        (''inconsistencyScore'' \<mapsto> JNum (1 - consistency)),
                        confidence := confidence analysis + 0.25 \<rparr>
         else analysis)"

definition checkIssueHiding :: "AgentReport list \<Rightarrow> DeceptionAnalysis \<Rightarrow> DeceptionAnalysis" where
  "checkIssueHiding reports analysis =
     (let issueHidingAnalysis = detectIssueHiding reports
      in if isHiding issueHidingAnalysis
         then analysis\<lparr> deceptionDetected := True,
                        deceptionType := deceptionType analysis @ [''issue_hiding''],
                        evidence_a := (evidence_a analysis)
                          (''hiddenIssuesCount'' \<mapsto>
                             JNum (real_of_int (hiddenCount issueHidingAnalysis))),
                        confidence := confidence analysis + 0.3 \<rparr>
         else analysis)"

definition checkCherryPicking :: "AgentReport list \<Rightarrow> DeceptionAnalysis \<Rightarrow> DeceptionAnalysis" where
  "checkCherryPicking reports analysis =
     (if detectCherryPicking reports
      then analysis\<lparr> deceptionDetected := True,
                     deceptionType := deceptionType analysis @ [''cherry_picking''],
                     evidence_a := (evidence_a analysis)
                                     (''incompleteMetricsReporting'' \<mapsto> JBool True),
                     confidence := confidence analysis + 0.25 \<rparr>
      else analysis)"

definition checkContradictions :: "AgentReport list \<Rightarrow> DeceptionAnalysis \<Rightarrow> DeceptionAnalysis" where
  "checkContradictions reports analysis =
     (let contradictionAnalysis = detectContradictions reports
      in if hasContradictions contradictionAnalysis
         then analysis\<lparr> deceptionDetected := True,
                        deceptionType := deceptionType analysis @ [''contradictory_statements''],
                        evidence_a := (evidence_a analysis)
                          (''contradictionCount'' \<mapsto>
                             JNum (real (count_c contradictionAnalysis))),
                        confidence := confidence analysis + 0.3 \<rparr>
         else analysis)"

definition checkFabricationPattern :: "AgentReport list \<Rightarrow> DeceptionAnalysis \<Rightarrow> DeceptionAnalysis" where
  "checkFabricationPattern reports analysis =
     (let fabricationAnalysis = detectFabricationPattern reports
      in if isFabricated_p fabricationAnalysis
         then analysis\<lparr> deceptionDetected := True,
                        deceptionType := deceptionType analysis @ [''fabrication''],
                        evidence_a := (evidence_a analysis)
                          (''unrealisticResults'' \<mapsto> JBool True,
                           ''evidenceInconsistency'' \<mapsto>
                             JNum (inconsistencyScore fabricationAnalysis)),
                        confidence := confidence analysis + 0.35 \<rparr>
         else analysis)"

definition checkGaslighting :: "AgentReport list \<Rightarrow> DeceptionAnalysis \<Rightarrow> DeceptionAnalysis" where
  "checkGaslighting reports analysis =
     (let gaslightingIndicators = detectGaslightingPatterns reports
      in if hasGaslighting gaslightingIndicators
         then analysis\<lparr> deceptionDetected := True,
                        deceptionType := deceptionType analysis @ [''gaslighting''],
                        evidence_a := (evidence_a analysis)
                          (''contradictionsWithOtherAgents'' \<mapsto>
                             JNum (real (contradictionCount_p gaslightingIndicators))),
                        confidence := confidence analysis + 0.3 \<rparr>
         else analysis)"

definition checkDiscrediting :: "AgentReport list \<Rightarrow> DeceptionAnalysis \<Rightarrow> DeceptionAnalysis" where
  "checkDiscrediting reports analysis =
     (let gaslightingIndicators = detectGaslightingPatterns reports
      in if hasDiscrediting gaslightingIndicators
         then analysis\<lparr> deceptionDetected := True,
                        deceptionType := deceptionType analysis @ [''discrediting_others''],
                        evidence_a := (evidence_a analysis)
                                        (''systematicDisagreement'' \<mapsto> JBool True),
                        confidence := confidence analysis + 0.35 \<rparr>
         else analysis)"

definition runChecks :: "AgentReport list \<Rightarrow> DeceptionAnalysis \<Rightarrow> DeceptionAnalysis" where
  "runChecks reports analysis =
     checkDiscrediting reports
      (checkGaslighting reports
       (checkFabricationPattern reports
        (checkContradictions reports
         (checkCherryPicking reports
          (checkIssueHiding reports
           (checkConsistency reports
            (checkQualityClaims reports
             (checkImpossibleClaims reports
              (checkPerformanceClaims reports
               (checkSuccessRates reports analysis))))))))))"

text \<open>The object the function starts from, and returns as it is for an empty list.\<close>

definition initialAnalysis :: "string \<Rightarrow> DeceptionAnalysis" where
  "initialAnalysis agent =
     \<lparr> reportId = None,
       agentId_a = agent,
       truthScore_a = 1.0,
       deceptionDetected = False,
       deceptionType = [],
       confidence = 0,
       evidence_a = Map.empty,
       recommendations = [] \<rparr>"

text \<open>
  The detector is passed in and returned: the only field the function writes is
  \<open>analysisHistory\<close>, where the analysis is pushed on the agent's list (created empty when
  the agent has none).
\<close>

definition analyzeAgentPattern ::
  "DeceptionDetector \<Rightarrow> string \<Rightarrow> AgentReport list \<Rightarrow> DeceptionAnalysis \<times> DeceptionDetector" where
  "analyzeAgentPattern this agent reports =
     (let analysis = initialAnalysis agent
      in if length reports = 0 then (analysis, this)
         else
           let analysis = runChecks reports analysis;
               analysis = analysis\<lparr> truthScore_a := calculateOverallTruthScore reports analysis \<rparr>;
               analysis = analysis\<lparr> confidence := min (confidence analysis) 1.0 \<rparr>;
               analysis = analysis\<lparr> recommendations := generateRecommendations analysis \<rparr>;
               history = (case analysisHistory this agent of None \<Rightarrow> [] | Some h \<Rightarrow> h)
           in (analysis,
               this\<lparr> analysisHistory := (analysisHistory this)(agent \<mapsto> history @ [analysis]) \<rparr>))"

definition getAgentHistory :: "DeceptionDetector \<Rightarrow> string \<Rightarrow> DeceptionAnalysis list" where
  "getAgentHistory this agent =
     (case analysisHistory this agent of None \<Rightarrow> [] | Some h \<Rightarrow> h)"

subsection \<open>detectCollusion (lines 2267 to 2335)\<close>

record CollusionEvidence =
  synchronizedReporting :: bool
  identicalFalseClaims :: nat

record CollusionResult =
  isCollusion :: bool
  confidence_c :: real
  evidence_c :: CollusionEvidence

text \<open>The loop over the sorted timestamps of one group: the number of increments of
  \<open>synchronizedCount\<close> it makes.\<close>

fun countSynchronized :: "int list \<Rightarrow> nat" where
  "countSynchronized (t0 # t1 # ts) =
     (if t1 - t0 < 5000 then 1 else 0) + countSynchronized (t1 # ts)"
| "countSynchronized _ = 0"

text \<open>The body of the loop over the task groups, on the pair
  \<open>(synchronizedCount, identicalClaimsCount)\<close>. \<open>continue\<close> leaves the pair as it is.\<close>

definition collusionStep :: "nat \<times> nat \<Rightarrow> string \<times> AgentReport list \<Rightarrow> nat \<times> nat" where
  "collusionStep st grp =
     (let reports = snd grp
      in if length reports < 2 then st
         else
           let timestamps = sort (map timestamp reports);
               synchronizedCount = fst st + countSynchronized timestamps;
               allClaimSuccess = list_all (\<lambda>r. success (claimedOutcome r) = True) reports;
               allClaimNoErrors = list_all (\<lambda>r. noErrors (claimedOutcome r) = True) reports;
               allClaimHighPerformance =
                 list_all (\<lambda>r. improvement (performance (claimedOutcome r)) > 0.3) reports;
               identicalClaimsCount =
                 (if allClaimSuccess \<and> allClaimNoErrors \<and> allClaimHighPerformance
                  then snd st + 1 else snd st);
               qualityScores = map (\<lambda>r. codeQuality (quality (claimedOutcome r))) reports;
               uniqueScores = remdups qualityScores;
               identicalClaimsCount =
                 (if length uniqueScores = 1 \<and>
                     (case qualityScores of [] \<Rightarrow> False | q # _ \<Rightarrow> q > 0.9)
                  then identicalClaimsCount + 1 else identicalClaimsCount)
           in (synchronizedCount, identicalClaimsCount))"

definition detectCollusion :: "AgentReport list \<Rightarrow> CollusionResult" where
  "detectCollusion allReports =
     (if length allReports < 4
      then \<lparr> isCollusion = False, confidence_c = 0,
             evidence_c = \<lparr> synchronizedReporting = False, identicalFalseClaims = 0 \<rparr> \<rparr>
      else
        let st = foldl collusionStep (0, 0) (taskGroups allReports);
            synchronizedCount = fst st;
            identicalClaimsCount = snd st;
            synchronized = (synchronizedCount > 2);
            collusion = (identicalClaimsCount > 2 \<or> synchronized);
            conf = min (real (identicalClaimsCount + synchronizedCount) * 0.2) 1.0
        in \<lparr> isCollusion = collusion, confidence_c = conf,
             evidence_c = \<lparr> synchronizedReporting = synchronized,
                            identicalFalseClaims = identicalClaimsCount \<rparr> \<rparr>)"

subsection \<open>Sample reports\<close>

text \<open>
  The report of Scenario A: every flag set, code quality 0.99, no performance gain and no
  evidence. The other samples are variations of it.
\<close>

definition perfectReport :: AgentReport where
  "perfectReport =
     \<lparr> id_r = ''report-1'',
       agentId = ''agent-a'',
       taskId = ''task-1'',
       claimedOutcome =
         \<lparr> success = True, testsPass = True, noErrors = True,
           performance = \<lparr> improvement = 0, metrics = Some [] \<rparr>,
           quality = \<lparr> codeQuality = 0.99, documentation = 0.5, maintainability = 0.5 \<rparr> \<rparr>,
       evidence = None,
       timestamp = 1700000000000,
       truthScore = None,
       verified = False,
       conflicts = [] \<rparr>"

text \<open>The same report with a one-key evidence map \<open>{duration: 500}\<close>.\<close>

definition quickReport :: AgentReport where
  "quickReport = perfectReport\<lparr> evidence := Some [(''duration'', JNum 500)] \<rparr>"

text \<open>The same report with a two-key evidence map and no duration.\<close>

definition sparseReport :: AgentReport where
  "sparseReport =
     perfectReport\<lparr> evidence := Some [(''logs'', JObj), (''testsRun'', JNum 12)] \<rparr>"

text \<open>\<open>quickReport\<close> with the timestamp 0.\<close>

definition epochReport :: AgentReport where
  "epochReport = quickReport\<lparr> timestamp := 0 \<rparr>"

text \<open>\<open>perfectReport\<close> claiming failure.\<close>

definition failedReport :: AgentReport where
  "failedReport =
     perfectReport\<lparr> claimedOutcome := (claimedOutcome perfectReport)\<lparr> success := False \<rparr> \<rparr>"

definition emptyDetector :: DeceptionDetector where
  "emptyDetector = \<lparr> tempDir = ''/tmp'', analysisHistory = Map.empty \<rparr>"

text \<open>\<open>perfectReport\<close> with a performance gain of 90 percent, and five of them.\<close>

definition boastfulReport :: AgentReport where
  "boastfulReport =
     perfectReport\<lparr> claimedOutcome :=
       (claimedOutcome perfectReport)
         \<lparr> performance := \<lparr> improvement = 0.9, metrics = Some [] \<rparr> \<rparr> \<rparr>"

definition boastfulReports :: "AgentReport list" where
  "boastfulReports =
     [boastfulReport, boastfulReport, boastfulReport, boastfulReport, boastfulReport]"

text \<open>Five reports that claim failure with otherwise perfect results and no evidence.\<close>

definition failedReports :: "AgentReport list" where
  "failedReports = [failedReport, failedReport, failedReport, failedReport, failedReport]"

text \<open>
  Reports for Scenario D: every flag set, all three quality values 0.95, no evidence; the
  agent, the task, the time and the performance gain vary.
\<close>

definition collusionReport :: "string \<Rightarrow> string \<Rightarrow> int \<Rightarrow> real \<Rightarrow> AgentReport" where
  "collusionReport agent task time gain =
     \<lparr> id_r = agent @ ''-'' @ task,
       agentId = agent,
       taskId = task,
       claimedOutcome =
         \<lparr> success = True, testsPass = True, noErrors = True,
           performance = \<lparr> improvement = gain, metrics = Some [] \<rparr>,
           quality = \<lparr> codeQuality = 0.95, documentation = 0.95, maintainability = 0.95 \<rparr> \<rparr>,
       evidence = None,
       timestamp = time,
       truthScore = None,
       verified = False,
       conflicts = [] \<rparr>"

text \<open>Two tasks, two agents each, the two reports of a task 1000 and 1500 ms apart, no
  performance gain claimed.\<close>

definition scenarioD :: "AgentReport list" where
  "scenarioD =
     [collusionReport ''agent-a'' ''task-1'' 1700000000000 0,
      collusionReport ''agent-b'' ''task-1'' 1700000001000 0,
      collusionReport ''agent-a'' ''task-2'' 1700000060000 0,
      collusionReport ''agent-b'' ''task-2'' 1700000061500 0]"

text \<open>The same corpus with a gain of 50 percent claimed by both agents on the first task.\<close>

definition scenarioD_gain :: "AgentReport list" where
  "scenarioD_gain =
     [collusionReport ''agent-a'' ''task-1'' 1700000000000 0.5,
      collusionReport ''agent-b'' ''task-1'' 1700000001000 0.5,
      collusionReport ''agent-a'' ''task-2'' 1700000060000 0,
      collusionReport ''agent-b'' ''task-2'' 1700000061500 0]"

section \<open>Properties\<close>

lemmas fab_defs = detectFabrication_def fabricationChecks_def checkPerfectResults_def
  checkEvidenceDetail_def checkTiming_def checkOverperformance_def insufficientEvidence_def
  evidenceField_def truthyAndBelow_def keysLength_def

lemmas sample_defs = perfectReport_def quickReport_def sparseReport_def epochReport_def
  failedReport_def

lemmas check_defs = checkSuccessRates_def checkPerformanceClaims_def checkImpossibleClaims_def
  checkQualityClaims_def checkConsistency_def checkIssueHiding_def checkCherryPicking_def
  checkContradictions_def checkFabricationPattern_def checkGaslighting_def checkDiscrediting_def

subsection \<open>detectFabrication on a single report\<close>

text \<open>
  Claim C3, as the code has it. A report with \<open>testsPass\<close>, \<open>noErrors\<close>, \<open>success\<close>, code
  quality 0.99, an improvement of at most 0.5 and an evidence map that is absent or has fewer
  than 3 keys, on which the timing check does not fire (the timestamp is 0, or the evidence
  has no truthy \<open>duration\<close> below 1000), gets exactly the two indicators
  "suspiciously-perfect-results" and "insufficient-evidence", the confidence 0.3 + 0.2 = 0.5,
  and \<open>isFabricated = false\<close>, since 0.5 is not above 0.5.
\<close>

theorem detectFabrication_boundary:
  assumes "testsPass (claimedOutcome r)"
    and "noErrors (claimedOutcome r)"
    and "success (claimedOutcome r)"
    and "codeQuality (quality (claimedOutcome r)) = 0.99"
    and "improvement (performance (claimedOutcome r)) \<le> 0.5"
    and "insufficientEvidence r"
    and "timestamp r = 0 \<or> \<not> truthyAndBelow (evidenceField r ''duration'') 1000"
  shows "confidence_f (detectFabrication r) = 0.5 \<and>
         \<not> isFabricated (detectFabrication r) \<and>
         indicators (detectFabrication r) =
           [''suspiciously-perfect-results'', ''insufficient-evidence'']"
  using assms
  by (auto simp add: detectFabrication_def fabricationChecks_def checkPerfectResults_def
        checkEvidenceDetail_def checkTiming_def checkOverperformance_def truthyAndBelow_def
        Let_def split: option.splits)

text \<open>The theorem at \<open>sparseReport\<close>, whose evidence has two keys and no duration.\<close>

theorem detectFabrication_boundary_witness:
  "testsPass (claimedOutcome sparseReport) \<and> noErrors (claimedOutcome sparseReport) \<and>
   success (claimedOutcome sparseReport) \<and>
   codeQuality (quality (claimedOutcome sparseReport)) = 0.99 \<and>
   improvement (performance (claimedOutcome sparseReport)) \<le> 0.5 \<and>
   insufficientEvidence sparseReport \<and>
   (timestamp sparseReport = 0 \<or>
    \<not> truthyAndBelow (evidenceField sparseReport ''duration'') 1000) \<and>
   confidence_f (detectFabrication sparseReport) = 0.5 \<and>
   \<not> isFabricated (detectFabrication sparseReport)"
  using detectFabrication_boundary [of sparseReport]
  by (simp add: sample_defs insufficientEvidence_def evidenceField_def truthyAndBelow_def
        keysLength_def)

text \<open>
  Claim C3 as stated fails on an evidence map with fewer than 3 keys that holds a short
  duration: \<open>quickReport\<close> meets every condition of the claim, its evidence is
  \<open>{duration: 500}\<close>, and the timing check adds 0.25, so the confidence is 0.75 and the
  report counts as fabricated.
\<close>

theorem detectFabrication_boundary_counterexample:
  "testsPass (claimedOutcome quickReport) \<and> noErrors (claimedOutcome quickReport) \<and>
   success (claimedOutcome quickReport) \<and>
   codeQuality (quality (claimedOutcome quickReport)) = 0.99 \<and>
   improvement (performance (claimedOutcome quickReport)) \<le> 0.5 \<and>
   evidence quickReport = Some [(''duration'', JNum 500)] \<and>
   keysLength [(''duration'', JNum 500)] < 3 \<and>
   confidence_f (detectFabrication quickReport) = 0.75 \<and>
   isFabricated (detectFabrication quickReport)"
  by (simp add: sample_defs fab_defs)

text \<open>
  Claim C4, as the code has it. For a report with a non-zero timestamp whose evidence holds
  a \<open>duration\<close> that is a non-zero number below 1000, the timing check appends
  "unrealistically-fast-completion" to the indicators and adds 0.25 to the score, whatever
  the two locals held before; the indicator is in the result, and the final score is 0.25
  above what the three other checks give.
\<close>

theorem detectFabrication_fast_completion:
  assumes "timestamp r \<noteq> 0"
    and "evidenceField r ''duration'' = Some (JNum d)"
    and "d \<noteq> 0"
    and "d < 1000"
  shows "checkTiming r st = (fst st @ [''unrealistically-fast-completion''], snd st + 0.25) \<and>
         ''unrealistically-fast-completion'' \<in> set (indicators (detectFabrication r)) \<and>
         snd (fabricationChecks r) =
           snd (checkOverperformance r
                  (checkEvidenceDetail r (checkPerfectResults r ([], 0)))) + 0.25"
  using assms
  by (simp add: detectFabrication_def fabricationChecks_def checkTiming_def
        checkOverperformance_def)

text \<open>The theorem at \<open>quickReport\<close> (duration 500, timestamp 1700000000000).\<close>

theorem detectFabrication_fast_completion_witness:
  "timestamp quickReport \<noteq> 0 \<and>
   evidenceField quickReport ''duration'' = Some (JNum 500) \<and>
   checkTiming quickReport ([], 0) = ([''unrealistically-fast-completion''], 0.25) \<and>
   ''unrealistically-fast-completion'' \<in> set (indicators (detectFabrication quickReport))"
  using detectFabrication_fast_completion [of quickReport 500 "([], 0)"]
  by (simp add: sample_defs evidenceField_def)

text \<open>
  Claim C4 as stated fails where the guard \<open>report.timestamp && ...\<close> is not passed:
  \<open>epochReport\<close> has the duration 500 in its evidence and the timestamp 0, the timing check
  leaves the locals as they are and the indicator is not in the result.
\<close>

theorem detectFabrication_fast_completion_counterexample:
  "evidenceField epochReport ''duration'' = Some (JNum 500) \<and> (500::real) < 1000 \<and>
   ''unrealistically-fast-completion'' \<notin> set (indicators (detectFabrication epochReport)) \<and>
   checkTiming epochReport ([], 0) = ([], 0) \<and>
   confidence_f (detectFabrication epochReport) = 0.5"
  by (simp add: sample_defs fab_defs)

subsection \<open>analyzeAgentPattern\<close>

text \<open>
  Claim C5. For every agent, \<open>analyzeAgentPattern\<close> on the empty list returns the analysis
  with truth score 1, nothing detected, confidence 0 and empty \<open>deceptionType\<close>, \<open>evidence\<close>
  and \<open>recommendations\<close>: the object the function starts from, before any check.
\<close>

theorem analyzeAgentPattern_empty:
  "fst (analyzeAgentPattern this agent []) =
     \<lparr> reportId = None, agentId_a = agent, truthScore_a = 1.0, deceptionDetected = False,
       deceptionType = [], confidence = 0, evidence_a = Map.empty, recommendations = [] \<rparr>"
  by (simp add: analyzeAgentPattern_def initialAnalysis_def)

lemma checks_nonneg:
  "0 \<le> confidence a \<Longrightarrow> 0 \<le> confidence (checkSuccessRates rs a)"
  "0 \<le> confidence a \<Longrightarrow> 0 \<le> confidence (checkPerformanceClaims rs a)"
  "0 \<le> confidence a \<Longrightarrow> 0 \<le> confidence (checkImpossibleClaims rs a)"
  "0 \<le> confidence a \<Longrightarrow> 0 \<le> confidence (checkQualityClaims rs a)"
  "0 \<le> confidence a \<Longrightarrow> 0 \<le> confidence (checkConsistency rs a)"
  "0 \<le> confidence a \<Longrightarrow> 0 \<le> confidence (checkIssueHiding rs a)"
  "0 \<le> confidence a \<Longrightarrow> 0 \<le> confidence (checkCherryPicking rs a)"
  "0 \<le> confidence a \<Longrightarrow> 0 \<le> confidence (checkContradictions rs a)"
  "0 \<le> confidence a \<Longrightarrow> 0 \<le> confidence (checkFabricationPattern rs a)"
  "0 \<le> confidence a \<Longrightarrow> 0 \<le> confidence (checkGaslighting rs a)"
  "0 \<le> confidence a \<Longrightarrow> 0 \<le> confidence (checkDiscrediting rs a)"
  by (simp_all add: check_defs Let_def)

lemma runChecks_nonneg: "0 \<le> confidence a \<Longrightarrow> 0 \<le> confidence (runChecks rs a)"
  unfolding runChecks_def by (intro checks_nonneg)

lemma truthScore_bounds:
  "0 \<le> calculateOverallTruthScore rs a \<and> calculateOverallTruthScore rs a \<le> 1"
  unfolding calculateOverallTruthScore_def Let_def
  by (intro conjI max.cobounded1 max.boundedI min.cobounded1) simp

text \<open>
  Claim C6. For every agent and every report list, the confidence and the truth score of
  the analysis returned by \<open>analyzeAgentPattern\<close> are in \<open>[0, 1]\<close>.
\<close>

theorem analyzeAgentPattern_clamped:
  "0 \<le> confidence (fst (analyzeAgentPattern this agent reports)) \<and>
   confidence (fst (analyzeAgentPattern this agent reports)) \<le> 1 \<and>
   0 \<le> truthScore_a (fst (analyzeAgentPattern this agent reports)) \<and>
   truthScore_a (fst (analyzeAgentPattern this agent reports)) \<le> 1"
proof (cases "reports = []")
  case True
  then show ?thesis by (simp add: analyzeAgentPattern_def initialAnalysis_def)
next
  case False
  have "0 \<le> confidence (runChecks reports (initialAnalysis agent))"
    by (rule runChecks_nonneg) (simp add: initialAnalysis_def)
  then show ?thesis
    using False truthScore_bounds [of reports "runChecks reports (initialAnalysis agent)"]
    by (simp add: analyzeAgentPattern_def Let_def)
qed

lemmas boast_defs = boastfulReports_def boastfulReport_def perfectReport_def

lemma boastful_rates:
  "analyzeSuccessRates boastfulReports = 0.3"
  "analyzePerformanceClaims boastfulReports = 0.75"
  "analyzeQualityClaims boastfulReports = 0.29"
  "analyzeConsistency boastfulReports = 1"
  by (simp_all add: analyzeSuccessRates_def analyzePerformanceClaims_def analyzeQualityClaims_def
        analyzeConsistency_def boast_defs)

lemma boastful_issueHiding:
  "detectIssueHiding boastfulReports = \<lparr> isHiding = False, hiddenCount = 0 \<rparr>"
  by (simp add: detectIssueHiding_def boast_defs)

lemma boastful_cherryPicking: "detectCherryPicking boastfulReports = False"
  by (simp add: detectCherryPicking_def cherryPickingStep_def keysLength_def boast_defs)

lemma boastful_contradictions:
  "detectContradictions boastfulReports = \<lparr> hasContradictions = False, count_c = 0 \<rparr>"
  by (simp add: detectContradictions_def taskGroups_def boast_defs)

lemma boastful_fabrication:
  "detectFabricationPattern boastfulReports =
     \<lparr> isFabricated_p = True, inconsistencyScore = 0.75 \<rparr>"
  by (simp add: detectFabricationPattern_def fabricationPatternStep_def patternIndicators_def
        insufficientEvidence_def evidenceField_def truthyAndBelow_def boast_defs)

lemma boastful_gaslighting:
  "detectGaslightingPatterns boastfulReports =
     \<lparr> hasGaslighting = False, hasDiscrediting = False, contradictionCount_p = 0 \<rparr>"
  by (simp add: detectGaslightingPatterns_def gaslightingPatternStep_def evidenceField_def
        truthyAndBelow_def boast_defs)

lemmas boastful_analyses = boastful_rates boastful_issueHiding boastful_cherryPicking
  boastful_contradictions boastful_fabrication boastful_gaslighting

lemma boastful_runChecks:
  "deceptionType (runChecks boastfulReports (initialAnalysis ''agent-a'')) =
     [''overconfidence'', ''exaggeration'', ''impossible_claims'', ''quality-inflation'',
      ''fabrication''] \<and>
   confidence (runChecks boastfulReports (initialAnalysis ''agent-a'')) = 1.3"
  by (simp add: runChecks_def check_defs boastful_analyses initialAnalysis_def Let_def)

lemma analyzeAgentPattern_fields:
  assumes "reports \<noteq> []"
  shows "deceptionType (fst (analyzeAgentPattern this agent reports)) =
           deceptionType (runChecks reports (initialAnalysis agent))"
    and "confidence (fst (analyzeAgentPattern this agent reports)) =
           min (confidence (runChecks reports (initialAnalysis agent))) 1"
    and "truthScore_a (fst (analyzeAgentPattern this agent reports)) =
           calculateOverallTruthScore reports (runChecks reports (initialAnalysis agent))"
  using assms by (simp_all add: analyzeAgentPattern_def Let_def)

lemma boastful_truthScore:
  "calculateOverallTruthScore boastfulReports
     (runChecks boastfulReports (initialAnalysis ''agent-a'')) = 0"
  by (simp add: calculateOverallTruthScore_def boastful_runChecks Let_def)

text \<open>
  The clamping at work: on five copies of \<open>boastfulReport\<close> the checks for overconfidence,
  exaggeration, impossible claims, quality inflation and fabrication fire, their confidence
  deltas add up to 1.3 and their truth-score penalties to 1.15; the analysis returned has
  confidence 1 and truth score 0.
\<close>

theorem analyzeAgentPattern_clamped_witness:
  "confidence (runChecks boastfulReports (initialAnalysis ''agent-a'')) = 1.3 \<and>
   confidence (fst (analyzeAgentPattern emptyDetector ''agent-a'' boastfulReports)) = 1 \<and>
   truthScore_a (fst (analyzeAgentPattern emptyDetector ''agent-a'' boastfulReports)) = 0"
proof -
  have ne: "boastfulReports \<noteq> []" by (simp add: boastfulReports_def)
  show ?thesis
    using analyzeAgentPattern_clamped [of emptyDetector "''agent-a''" boastfulReports]
    by (simp add: analyzeAgentPattern_fields [OF ne] boastful_runChecks boastful_truthScore)
qed

text \<open>
  Claim C7. The analysis \<open>analyzeAgentPattern\<close> returns does not depend on the detector it
  is called on: a second call with the same agent and the same reports, on the detector the
  first call left, returns the same analysis (so the same \<open>deceptionType\<close>, truth score and
  confidence), and so does a call on any other detector.
\<close>

theorem analyzeAgentPattern_independent_of_history:
  "fst (analyzeAgentPattern (snd (analyzeAgentPattern this agent reports)) agent reports) =
     fst (analyzeAgentPattern this agent reports) \<and>
   fst (analyzeAgentPattern this' agent reports) = fst (analyzeAgentPattern this agent reports)"
  by (simp add: analyzeAgentPattern_def Let_def)

text \<open>
  Claim C10. A call of \<open>analyzeAgentPattern\<close> with an empty list returns the detector as it
  was, so \<open>getAgentHistory\<close> answers the same for every agent; a call with a non-empty list
  appends the returned analysis to the history of its agent and leaves every other agent's
  history as it was.
\<close>

theorem analyzeAgentPattern_history:
  "snd (analyzeAgentPattern this agent []) = this \<and>
   getAgentHistory (snd (analyzeAgentPattern this agent reports)) other =
     (if reports = [] \<or> other \<noteq> agent then getAgentHistory this other
      else getAgentHistory this agent @ [fst (analyzeAgentPattern this agent reports)])"
  by (simp add: analyzeAgentPattern_def getAgentHistory_def Let_def)

text \<open>The theorem on the detector with no history: after a call with no report the agent
  has no history, after a call with one report it has the one analysis returned.\<close>

theorem analyzeAgentPattern_history_witness:
  "getAgentHistory (snd (analyzeAgentPattern emptyDetector ''agent-a'' [])) ''agent-a'' = [] \<and>
   getAgentHistory (snd (analyzeAgentPattern emptyDetector ''agent-a'' [perfectReport]))
      ''agent-a'' =
     [fst (analyzeAgentPattern emptyDetector ''agent-a'' [perfectReport])] \<and>
   getAgentHistory (snd (analyzeAgentPattern emptyDetector ''agent-a'' [perfectReport]))
      ''agent-b'' = []"
  using analyzeAgentPattern_history [of emptyDetector "''agent-a''" "[]" "''agent-a''"]
    analyzeAgentPattern_history [of emptyDetector "''agent-a''" "[perfectReport]" "''agent-a''"]
    analyzeAgentPattern_history [of emptyDetector "''agent-a''" "[perfectReport]" "''agent-b''"]
  by (simp add: getAgentHistory_def emptyDetector_def)

subsection \<open>analyzeSuccessRates\<close>

text \<open>
  Claim C8. For a non-empty list of reports that all claim success, appending a report that
  claims failure (with improvement 0) does not increase the discrepancy
  \<open>max(0, success-claim rate - 0.7)\<close>.
\<close>

theorem analyzeSuccessRates_append_failure:
  assumes "rs \<noteq> []"
    and "\<forall>r\<in>set rs. success (claimedOutcome r)"
    and "\<not> success (claimedOutcome r')"
    and "improvement (performance (claimedOutcome r')) = 0"
  shows "analyzeSuccessRates (rs @ [r']) \<le> analyzeSuccessRates rs"
proof -
  have all: "filter (\<lambda>r. success (claimedOutcome r)) rs = rs"
    using assms(2) by simp
  have n: "0 < real (length rs)" using assms(1) by simp
  have before: "analyzeSuccessRates rs = max 0 (1 - 0.7)"
    using n by (simp add: analyzeSuccessRates_def all)
  have after: "analyzeSuccessRates (rs @ [r']) =
                 max 0 (real (length rs) / real (length rs + 1) - 0.7)"
    using assms(3) by (simp add: analyzeSuccessRates_def all)
  have "real (length rs) / real (length rs + 1) \<le> 1" by simp
  then have "max 0 (real (length rs) / real (length rs + 1) - 0.7) \<le> max 0 (1 - 0.7 :: real)"
    by linarith
  then show ?thesis by (simp only: before after)
qed

text \<open>The theorem at one successful report followed by \<open>failedReport\<close>.\<close>

theorem analyzeSuccessRates_append_failure_witness:
  "[perfectReport] \<noteq> [] \<and> success (claimedOutcome perfectReport) \<and>
   \<not> success (claimedOutcome failedReport) \<and>
   improvement (performance (claimedOutcome failedReport)) = 0 \<and>
   analyzeSuccessRates ([perfectReport] @ [failedReport]) \<le> analyzeSuccessRates [perfectReport]"
  using analyzeSuccessRates_append_failure [of "[perfectReport]" failedReport]
  by (simp add: sample_defs)

subsection \<open>detectGaslighting\<close>

text \<open>
  Claim C9. When no other report has the report's \<open>taskId\<close> and a different \<open>agentId\<close>,
  \<open>detectGaslighting\<close> returns no contradictions, the count 0, \<open>isGaslighting = false\<close>,
  confidence 0, and \<open>systematicDisagreement = true\<close> (0 is at least \<open>min(0, 8)\<close>).
\<close>

theorem detectGaslighting_no_same_task:
  assumes "\<forall>other\<in>set otherReports.
             \<not> (taskId other = taskId report \<and> agentId other \<noteq> agentId report)"
  shows "detectGaslighting report otherReports =
           \<lparr> isGaslighting = False, confidence_g = 0, contradictions = [],
             contradictionsWithOtherAgents = 0, systematicDisagreement = True \<rparr>"
proof -
  have "filter (\<lambda>r. taskId r = taskId report \<and> agentId r \<noteq> agentId report) otherReports = []"
    using assms by (simp add: filter_empty_conv)
  then show ?thesis by (simp add: detectGaslighting_def)
qed

text \<open>The theorem at \<open>perfectReport\<close> against a report of the same agent on the same task.\<close>

theorem detectGaslighting_no_same_task_witness:
  "\<not> (taskId failedReport = taskId perfectReport \<and>
      agentId failedReport \<noteq> agentId perfectReport) \<and>
   detectGaslighting perfectReport [failedReport] =
     \<lparr> isGaslighting = False, confidence_g = 0, contradictions = [],
       contradictionsWithOtherAgents = 0, systematicDisagreement = True \<rparr>"
  using detectGaslighting_no_same_task [of "[failedReport]" perfectReport]
  by (simp add: sample_defs)

subsection \<open>The fabrication check of analyzeAgentPattern\<close>

lemma foldl_fabricationPatternStep:
  "foldl fabricationPatternStep (a, t) rs =
     (a + sum_list (map patternIndicators rs), t + 4 * length rs)"
  by (induction rs arbitrary: a t) (simp_all add: fabricationPatternStep_def)

lemma detectFabricationPattern_score:
  "5 \<le> length rs \<Longrightarrow>
   detectFabricationPattern rs =
     \<lparr> isFabricated_p = (real (sum_list (map patternIndicators rs)) / real (4 * length rs) > 0.4),
       inconsistencyScore = real (sum_list (map patternIndicators rs)) / real (4 * length rs) \<rparr>"
  by (simp add: detectFabricationPattern_def foldl_fabricationPatternStep Let_def)

lemma fabrication_label_checks:
  "''fabrication'' \<in> set (deceptionType (checkSuccessRates rs a)) \<longleftrightarrow> ''fabrication'' \<in> set (deceptionType a)"
  "''fabrication'' \<in> set (deceptionType (checkPerformanceClaims rs a)) \<longleftrightarrow> ''fabrication'' \<in> set (deceptionType a)"
  "''fabrication'' \<in> set (deceptionType (checkImpossibleClaims rs a)) \<longleftrightarrow> ''fabrication'' \<in> set (deceptionType a)"
  "''fabrication'' \<in> set (deceptionType (checkQualityClaims rs a)) \<longleftrightarrow> ''fabrication'' \<in> set (deceptionType a)"
  "''fabrication'' \<in> set (deceptionType (checkConsistency rs a)) \<longleftrightarrow> ''fabrication'' \<in> set (deceptionType a)"
  "''fabrication'' \<in> set (deceptionType (checkIssueHiding rs a)) \<longleftrightarrow> ''fabrication'' \<in> set (deceptionType a)"
  "''fabrication'' \<in> set (deceptionType (checkCherryPicking rs a)) \<longleftrightarrow> ''fabrication'' \<in> set (deceptionType a)"
  "''fabrication'' \<in> set (deceptionType (checkContradictions rs a)) \<longleftrightarrow> ''fabrication'' \<in> set (deceptionType a)"
  "''fabrication'' \<in> set (deceptionType (checkFabricationPattern rs a)) \<longleftrightarrow>
     isFabricated_p (detectFabricationPattern rs) \<or> ''fabrication'' \<in> set (deceptionType a)"
  "''fabrication'' \<in> set (deceptionType (checkGaslighting rs a)) \<longleftrightarrow> ''fabrication'' \<in> set (deceptionType a)"
  "''fabrication'' \<in> set (deceptionType (checkDiscrediting rs a)) \<longleftrightarrow> ''fabrication'' \<in> set (deceptionType a)"
  by (simp_all add: check_defs Let_def)

lemma fabrication_label_runChecks:
  "''fabrication'' \<in> set (deceptionType (runChecks rs (initialAnalysis agent))) \<longleftrightarrow>
     isFabricated_p (detectFabricationPattern rs)"
  by (simp add: runChecks_def fabrication_label_checks initialAnalysis_def)

lemma fabrication_label_iff:
  "reports \<noteq> [] \<Longrightarrow>
   ''fabrication'' \<in> set (deceptionType (fst (analyzeAgentPattern this agent reports))) \<longleftrightarrow>
     isFabricated_p (detectFabricationPattern reports)"
  by (simp add: analyzeAgentPattern_def Let_def fabrication_label_runChecks)

lemma indicators_length:
  "length (indicators (detectFabrication r)) =
     (if testsPass (claimedOutcome r) \<and> noErrors (claimedOutcome r) \<and> success (claimedOutcome r) \<and>
         codeQuality (quality (claimedOutcome r)) > 0.95 then 1 else 0) +
     (if insufficientEvidence r then 1 else 0) +
     (if timestamp r \<noteq> 0 \<and> truthyAndBelow (evidenceField r ''duration'') 1000 then 1 else 0) +
     (if improvement (performance (claimedOutcome r)) > 0.5 then 1 else 0)"
  by (simp add: detectFabrication_def fabricationChecks_def checkPerfectResults_def
        checkEvidenceDetail_def checkTiming_def checkOverperformance_def truthyAndBelow_def
        Let_def split: option.splits)

lemma patternIndicators_vs_standalone:
  "patternIndicators r =
     length (indicators (detectFabrication r)) +
     (if codeQuality (quality (claimedOutcome r)) > 0.95 \<and> testsPass (claimedOutcome r) \<and>
         noErrors (claimedOutcome r) \<and> \<not> success (claimedOutcome r) then 1 else 0) +
     (if timestamp r = 0 \<and> truthyAndBelow (evidenceField r ''duration'') 1000 then 1 else 0)"
  by (simp add: indicators_length patternIndicators_def)

lemma boastful_indicators: "patternIndicators boastfulReport = 3"
  "indicators (detectFabrication boastfulReport) =
     [''suspiciously-perfect-results'', ''insufficient-evidence'', ''unrealistic-performance-improvement'']"
  by (simp_all add: patternIndicators_def boastfulReport_def perfectReport_def fab_defs)

lemma failed_indicators: "patternIndicators failedReport = 2"
  "indicators (detectFabrication failedReport) = [''insufficient-evidence'']"
  by (simp_all add: patternIndicators_def failedReport_def perfectReport_def fab_defs)

text \<open>
  Claim C2, as the code has it. For a list of at least 5 reports, the "fabrication" label
  is in the analysis exactly when the sum of the per-report counts of
  \<open>detectFabricationPattern\<close>, divided by 4 times the number of reports, is above 0.4, and
  that quotient is the \<open>inconsistencyScore\<close>. The count for a report is one point for each
  indicator \<open>detectFabrication\<close> fires on it, one more point when the report has code
  quality above 0.95, \<open>testsPass\<close> and \<open>noErrors\<close> but does not claim success (the pattern
  check does not look at \<open>success\<close>), and one more point when the timestamp is 0 and the
  evidence holds a truthy duration below 1000 (the pattern check does not look at the
  timestamp).
\<close>

theorem fabrication_pattern_counts:
  assumes "5 \<le> length reports"
  shows "(''fabrication'' \<in> set (deceptionType (fst (analyzeAgentPattern this agent reports))) \<longleftrightarrow>
            real (sum_list (map patternIndicators reports)) / real (4 * length reports) > 0.4) \<and>
         inconsistencyScore (detectFabricationPattern reports) =
            real (sum_list (map patternIndicators reports)) / real (4 * length reports) \<and>
         patternIndicators r =
           length (indicators (detectFabrication r)) +
           (if codeQuality (quality (claimedOutcome r)) > 0.95 \<and> testsPass (claimedOutcome r) \<and>
               noErrors (claimedOutcome r) \<and> \<not> success (claimedOutcome r) then 1 else 0) +
           (if timestamp r = 0 \<and> truthyAndBelow (evidenceField r ''duration'') 1000
            then 1 else 0)"
proof -
  have "reports \<noteq> []" using assms by auto
  then show ?thesis
    using assms
    by (simp add: fabrication_label_iff detectFabricationPattern_score
          patternIndicators_vs_standalone [of r])
qed

text \<open>The theorem at five copies of \<open>boastfulReport\<close>: three points per report on both
  sides, the quotient is 15/20 and the label fires.\<close>

theorem fabrication_pattern_counts_witness:
  "5 \<le> length boastfulReports \<and>
   ''fabrication'' \<in> set (deceptionType (fst (analyzeAgentPattern emptyDetector ''agent-a'' boastfulReports))) \<and>
   inconsistencyScore (detectFabricationPattern boastfulReports) = 0.75 \<and>
   patternIndicators boastfulReport = length (indicators (detectFabrication boastfulReport))"
  using fabrication_pattern_counts [of boastfulReports emptyDetector "''agent-a''" boastfulReport]
  by (simp add: boastfulReports_def boastful_indicators)

text \<open>
  Claim C2 as stated fails on reports that do not claim success: on \<open>failedReport\<close> the
  standalone \<open>detectFabrication\<close> fires one indicator only, the pattern check counts two
  points. On five such reports the pattern check counts 10 of 20 and the label fires, while
  the indicators of \<open>detectFabrication\<close> add up to 5 of 20, which is not above 0.4.
\<close>

theorem fabrication_pattern_counts_counterexample:
  "5 \<le> length failedReports \<and>
   patternIndicators failedReport = 2 \<and>
   indicators (detectFabrication failedReport) = [''insufficient-evidence''] \<and>
   sum_list (map patternIndicators failedReports) = 10 \<and>
   sum_list (map (\<lambda>r. length (indicators (detectFabrication r))) failedReports) = 5 \<and>
   ''fabrication'' \<in> set (deceptionType (fst (analyzeAgentPattern emptyDetector ''agent-a'' failedReports))) \<and>
   \<not> (real (sum_list (map (\<lambda>r. length (indicators (detectFabrication r))) failedReports))
        / real (4 * length failedReports) > 0.4)"
proof -
  have len: "length failedReports = 5" by (simp add: failedReports_def)
  have pat: "sum_list (map patternIndicators failedReports) = 10"
    by (simp add: failedReports_def failed_indicators)
  have alone: "sum_list (map (\<lambda>r. length (indicators (detectFabrication r))) failedReports) = 5"
    by (simp add: failedReports_def failed_indicators)
  have "failedReports \<noteq> []" by (simp add: failedReports_def)
  then have "''fabrication'' \<in> set (deceptionType (fst (analyzeAgentPattern emptyDetector ''agent-a'' failedReports)))"
    by (simp add: fabrication_label_iff detectFabricationPattern_score len pat)
  then show ?thesis
    by (simp add: len pat alone failed_indicators)
qed

subsection \<open>detectCollusion\<close>

lemmas collusion_samples = scenarioD_def scenarioD_gain_def collusionReport_def

lemma collusionStep_pair:
  assumes "codeQuality (quality (claimedOutcome x)) = 0.95"
    and "codeQuality (quality (claimedOutcome y)) = 0.95"
    and "\<bar>timestamp x - timestamp y\<bar> \<le> 2000"
  shows "collusionStep (s, i) (k, [x, y]) =
           (s + 1,
            i + (if list_all (\<lambda>r. success (claimedOutcome r) \<and> noErrors (claimedOutcome r) \<and>
                     improvement (performance (claimedOutcome r)) > 0.3) [x, y] then 1 else 0) + 1)"
  using assms by (auto simp add: collusionStep_def Let_def)

lemma four_elements: "length rs = 4 \<Longrightarrow> \<exists>a b c d. rs = [a, b, c, d]"
  by (auto simp add: numeral_eq_Suc length_Suc_conv)

text \<open>
  Claim C1, as the code has it. For a corpus of exactly 4 reports over 2 distinct tasks, 2
  reports each, all with code quality 0.95 and the two reports of a task at most 2000 ms
  apart, \<open>detectCollusion\<close> counts 2 synchronized pairs, which is not more than 2, so
  \<open>synchronizedReporting\<close> is false; and \<open>isCollusion\<close> is true exactly when, for at least
  one of the two tasks, both reports claim success, no errors and an improvement above 0.3.
\<close>

theorem detectCollusion_two_pairs:
  assumes len: "length rs = 4"
    and ne: "t1 \<noteq> t2"
    and g1: "length (filter (\<lambda>r. taskId r = t1) rs) = 2"
    and g2: "length (filter (\<lambda>r. taskId r = t2) rs) = 2"
    and q: "\<forall>r\<in>set rs. codeQuality (quality (claimedOutcome r)) = 0.95"
    and ts: "\<forall>r\<in>set rs. \<forall>r'\<in>set rs. taskId r = taskId r' \<longrightarrow> \<bar>timestamp r - timestamp r'\<bar> \<le> 2000"
  shows "\<not> synchronizedReporting (evidence_c (detectCollusion rs)) \<and>
         (isCollusion (detectCollusion rs) \<longleftrightarrow>
            list_all (\<lambda>r. success (claimedOutcome r) \<and> noErrors (claimedOutcome r) \<and>
                     improvement (performance (claimedOutcome r)) > 0.3) (filter (\<lambda>r. taskId r = t1) rs) \<or>
            list_all (\<lambda>r. success (claimedOutcome r) \<and> noErrors (claimedOutcome r) \<and>
                     improvement (performance (claimedOutcome r)) > 0.3) (filter (\<lambda>r. taskId r = t2) rs))"
proof -
  obtain a b c d where rs: "rs = [a, b, c, d]"
    using four_elements [OF len] by blast
  have qs: "codeQuality (quality (claimedOutcome a)) = 0.95"
    "codeQuality (quality (claimedOutcome b)) = 0.95"
    "codeQuality (quality (claimedOutcome c)) = 0.95"
    "codeQuality (quality (claimedOutcome d)) = 0.95"
    using q by (simp_all add: rs)
  have cases: "(taskId a = t1 \<and> taskId b = t1 \<and> taskId c = t2 \<and> taskId d = t2) \<or>
     (taskId a = t1 \<and> taskId b = t2 \<and> taskId c = t1 \<and> taskId d = t2) \<or>
     (taskId a = t1 \<and> taskId b = t2 \<and> taskId c = t2 \<and> taskId d = t1) \<or>
     (taskId a = t2 \<and> taskId b = t2 \<and> taskId c = t1 \<and> taskId d = t1) \<or>
     (taskId a = t2 \<and> taskId b = t1 \<and> taskId c = t2 \<and> taskId d = t1) \<or>
     (taskId a = t2 \<and> taskId b = t1 \<and> taskId c = t1 \<and> taskId d = t2)"
    using g1 g2 ne by (auto simp add: rs split: if_splits)
  show ?thesis
    using cases
  proof (elim disjE conjE)
    assume t: "taskId a = t1" "taskId b = t1" "taskId c = t2" "taskId d = t2"
    have "\<bar>timestamp a - timestamp b\<bar> \<le> 2000" "\<bar>timestamp c - timestamp d\<bar> \<le> 2000"
      using ts t by (simp_all add: rs)
    then show ?thesis using ne qs t
      by (simp add: rs detectCollusion_def taskGroups_def collusionStep_pair)
  next
    assume t: "taskId a = t1" "taskId b = t2" "taskId c = t1" "taskId d = t2"
    have "\<bar>timestamp a - timestamp c\<bar> \<le> 2000" "\<bar>timestamp b - timestamp d\<bar> \<le> 2000"
      using ts t by (simp_all add: rs)
    then show ?thesis using ne qs t
      by (simp add: rs detectCollusion_def taskGroups_def collusionStep_pair)
  next
    assume t: "taskId a = t1" "taskId b = t2" "taskId c = t2" "taskId d = t1"
    have "\<bar>timestamp a - timestamp d\<bar> \<le> 2000" "\<bar>timestamp b - timestamp c\<bar> \<le> 2000"
      using ts t by (simp_all add: rs)
    then show ?thesis using ne qs t
      by (simp add: rs detectCollusion_def taskGroups_def collusionStep_pair)
  next
    assume t: "taskId a = t2" "taskId b = t2" "taskId c = t1" "taskId d = t1"
    have "\<bar>timestamp a - timestamp b\<bar> \<le> 2000" "\<bar>timestamp c - timestamp d\<bar> \<le> 2000"
      using ts t by (simp_all add: rs)
    then show ?thesis using ne qs t
      by (auto simp add: rs detectCollusion_def taskGroups_def collusionStep_pair)
  next
    assume t: "taskId a = t2" "taskId b = t1" "taskId c = t2" "taskId d = t1"
    have "\<bar>timestamp a - timestamp c\<bar> \<le> 2000" "\<bar>timestamp b - timestamp d\<bar> \<le> 2000"
      using ts t by (simp_all add: rs)
    then show ?thesis using ne qs t
      by (auto simp add: rs detectCollusion_def taskGroups_def collusionStep_pair)
  next
    assume t: "taskId a = t2" "taskId b = t1" "taskId c = t1" "taskId d = t2"
    have "\<bar>timestamp a - timestamp d\<bar> \<le> 2000" "\<bar>timestamp b - timestamp c\<bar> \<le> 2000"
      using ts t by (simp_all add: rs)
    then show ?thesis using ne qs t
      by (auto simp add: rs detectCollusion_def taskGroups_def collusionStep_pair)
  qed
qed

text \<open>The theorem at \<open>scenarioD_gain\<close>, where both reports on the first task claim a gain of
  50 percent: collusion is reported, synchronized reporting is not.\<close>

theorem detectCollusion_two_pairs_witness:
  "length scenarioD_gain = 4 \<and>
   map taskId scenarioD_gain = [''task-1'', ''task-1'', ''task-2'', ''task-2''] \<and>
   isCollusion (detectCollusion scenarioD_gain) \<and>
   \<not> synchronizedReporting (evidence_c (detectCollusion scenarioD_gain))"
  using detectCollusion_two_pairs [of scenarioD_gain "''task-1''" "''task-2''"]
  by (simp add: collusion_samples)

text \<open>
  Claim C1 as stated fails on \<open>scenarioD\<close>: 4 reports, 2 tasks, code quality 0.95
  throughout, the reports of a task 1000 and 1500 ms apart. The two groups give 2
  synchronized pairs and 2 identical claims; neither count is above 2.
\<close>

theorem detectCollusion_scenarioD_counterexample:
  "length scenarioD = 4 \<and>
   map taskId scenarioD = [''task-1'', ''task-1'', ''task-2'', ''task-2''] \<and>
   map (\<lambda>r. codeQuality (quality (claimedOutcome r))) scenarioD = [0.95, 0.95, 0.95, 0.95] \<and>
   map timestamp scenarioD = [1700000000000, 1700000001000, 1700000060000, 1700000061500] \<and>
   \<not> isCollusion (detectCollusion scenarioD) \<and>
   \<not> synchronizedReporting (evidence_c (detectCollusion scenarioD)) \<and>
   identicalFalseClaims (evidence_c (detectCollusion scenarioD)) = 2"
  by (simp add: collusion_samples detectCollusion_def taskGroups_def collusionStep_def)

end
